theory Spec2Isabelle
  imports Complex_Main "HOL-Library.AList"
begin

section \<open>Numeric model\<close>

text \<open>
  The scripts of this repository compute on IEEE doubles through Python, NumPy and pandas.
  The embedding below follows the data model of the specification, which speaks of real
  numbers: a finite float is a \<^typ>\<open>real\<close>, arithmetic is exact, and the only
  non-finite values that are modelled are the ones the scripts produce on purpose or
  by construction (\<open>float('inf')\<close> in the ULP scripts, the \<open>NaN\<close> that
  pandas returns as the sample standard deviation of a single value). Rounding is not
  modelled.
\<close>

datatype py_error = SystemExit int | ValueError | CalledProcessError | KeyError

subsection \<open>NumPy and pandas aggregates\<close>

text \<open>
  \<open>np.mean\<close> and \<open>np.std\<close> (population standard deviation, \<open>ddof = 0\<close>:
  \<open>sqrt(mean(abs(a - a.mean())**2))\<close>), \<open>np.unique\<close> (the sorted distinct
  values), \<open>np.min\<close> and \<open>np.max\<close>. Every call site passes a non-empty
  selection.
\<close>

definition np_mean :: "real list \<Rightarrow> real" where
  "np_mean a = sum_list a / real (length a)"

definition np_std :: "real list \<Rightarrow> real" where
  "np_std a = sqrt (np_mean (map (\<lambda>v. \<bar>v - np_mean a\<bar> ^ 2) a))"

definition np_unique :: "real list \<Rightarrow> real list" where
  "np_unique a = sort (remdups a)"

definition np_min :: "real list \<Rightarrow> real" where
  "np_min a = Min (set a)"

definition np_max :: "real list \<Rightarrow> real" where
  "np_max a = Max (set a)"

text \<open>
  A Python float as the ULP scripts see it: a finite value, one of the infinities, or
  \<open>NaN\<close>. Comparisons with \<open>NaN\<close> are false.
\<close>

datatype pyfloat = Fin real | PInf | NInf | NaN

fun gt_zero :: "pyfloat \<Rightarrow> bool" where
  "gt_zero (Fin r) = (r > 0)"
| "gt_zero PInf = True"
| "gt_zero NInf = False"
| "gt_zero NaN = False"

fun eq_zero :: "pyfloat \<Rightarrow> bool" where
  "eq_zero (Fin r) = (r = 0)"
| "eq_zero PInf = False"
| "eq_zero NInf = False"
| "eq_zero NaN = False"

text \<open>
  \<open>Series.std()\<close> of pandas is the sample standard deviation (\<open>ddof = 1\<close>):
  the divisor is \<open>count - 1\<close>, and a series of one value has \<open>NaN\<close> as its
  standard deviation. \<open>Series.mean()\<close> is the arithmetic mean.
\<close>

definition pandas_mean :: "real list \<Rightarrow> real" where
  "pandas_mean a = sum_list a / real (length a)"

definition pandas_std :: "real list \<Rightarrow> pyfloat" where
  "pandas_std a =
     (if length a < 2 then NaN
      else Fin (sqrt (sum_list (map (\<lambda>v. (v - pandas_mean a) ^ 2) a) / real (length a - 1))))"

subsection \<open>Significant digits: the capped estimators\<close>

text \<open>
  \<open>prec_dec = float(prec_b) * math.log(2, 10)\<close> in \<open>gelu/sigfigplot.py\<close> and
  \<open>gelu/plot.py\<close>; \<open>max_sig_digits = precision_bits * np.log10(2)\<close> in
  \<open>softmax/plot.py\<close> and \<open>softmax/plotsigfigs.py\<close>, where the precision is an
  \<open>int\<close> of the command line.
\<close>

definition prec_dec :: "real \<Rightarrow> real" where
  "prec_dec prec_b = prec_b * log 10 2"

definition max_sig_digits :: "int \<Rightarrow> real" where
  "max_sig_digits precision_bits = real_of_int precision_bits * log 10 2"

text \<open>
  \<open>math.log10\<close> raises \<open>ValueError\<close> outside its domain. Inside it the
  model has the exact logarithm, of which the function returns a rounding; the
  properties below use the sign and the order of its values only, never an identity between
  the results of two calls.
\<close>

definition math_log10 :: "real \<Rightarrow> py_error + real" where
  "math_log10 v = (if v > 0 then Inr (log 10 v) else Inl ValueError)"

text \<open>
  \<open>gelu/sigfigplot.py\<close> lines 80--87 (the same chain is in \<open>gelu/plot.py\<close>
  lines 104--111):
  \<^verbatim>\<open>
        if sigma == 0:
            s = prec_dec
        elif mu == 0:
            s = 0
        else:
            s = min(-math.log10(sigma/abs(mu)), prec_dec)
  \<close>
  The third argument is the value of \<open>prec_dec\<close>.
\<close>

definition sigfigplot_s :: "real \<Rightarrow> real \<Rightarrow> real \<Rightarrow> py_error + real" where
  "sigfigplot_s sigma mu pd =
     (if sigma = 0 then Inr pd
      else if mu = 0 then Inr 0
      else (case math_log10 (sigma / \<bar>mu\<bar>) of
              Inl e \<Rightarrow> Inl e
            | Inr l \<Rightarrow> Inr (min (- l) pd)))"

text \<open>
  The table \<open>D\<close> of the one-input scripts has the columns \<open>i\<close>, \<open>x\<close> and
  \<open>result\<close> (the fields \<open>col_i\<close>, \<open>col_x\<close>, \<open>col_result\<close>). The loop of \<open>gelu/sigfigplot.py\<close> (lines 69--89) runs over
  \<open>np.unique(D['x'])\<close>, selects \<open>D[D['x'] == x]['result']\<close> and appends one
  \<open>s\<close> per value of \<open>x\<close>; an exception stops the script.
\<close>

record tab_row =
  col_i :: int
  col_x :: real
  col_result :: real

definition x_values :: "tab_row list \<Rightarrow> real list" where
  "x_values D = np_unique (map col_x D)"

definition result_samples :: "tab_row list \<Rightarrow> real \<Rightarrow> real list" where
  "result_samples D xv = map col_result (filter (\<lambda>r. col_x r = xv) D)"

definition sigfigplot_group :: "tab_row list \<Rightarrow> real \<Rightarrow> real \<Rightarrow> py_error + real" where
  "sigfigplot_group D pd xv =
     (let mu = np_mean (result_samples D xv);
          sigma = np_std (result_samples D xv)
      in sigfigplot_s sigma mu pd)"

fun s_values_loop :: "tab_row list \<Rightarrow> real \<Rightarrow> real list \<Rightarrow> real list \<Rightarrow> py_error + real list" where
  "s_values_loop D pd [] s_values = Inr s_values"
| "s_values_loop D pd (xv # xs) s_values =
     (case sigfigplot_group D pd xv of
        Inl e \<Rightarrow> Inl e
      | Inr s \<Rightarrow> s_values_loop D pd xs (s_values @ [s]))"

definition sigfigplot_s_values :: "tab_row list \<Rightarrow> real \<Rightarrow> py_error + real list" where
  "sigfigplot_s_values D prec_b = s_values_loop D (prec_dec prec_b) (x_values D) []"

text \<open>
  \<open>compute_statistics\<close> of \<open>softmax/plot.py\<close> (lines 176--183, 206--212,
  237--243) and \<open>compute_significant_digits\<close> of \<open>softmax/plotsigfigs.py\<close>:
  \<^verbatim>\<open>
            if std_val < 1e-15 or std_val == 0:  # Below machine epsilon
                sig_digits = max_sig_digits
            elif mean_val == 0:
                sig_digits = 0
            else:
                # Cap at maximum possible for the precision
                sig_digits = min(-np.log10(std_val/abs(mean_val)), max_sig_digits)
  \<close>
  In the last branch \<open>std_val \<ge> 1e-15\<close> and \<open>mean_val \<noteq> 0\<close>, so the
  argument of \<open>np.log10\<close> is positive.
\<close>

definition sig_digits_of :: "real \<Rightarrow> real \<Rightarrow> int \<Rightarrow> real" where
  "sig_digits_of std_val mean_val precision_bits =
     (if std_val < 1 / 10 ^ 15 \<or> std_val = 0 then max_sig_digits precision_bits
      else if mean_val = 0 then 0
      else min (- log 10 (std_val / \<bar>mean_val\<bar>)) (max_sig_digits precision_bits))"

subsection \<open>Significant digits: the ULP scripts\<close>

text \<open>
  \<open>gelu/ulpplot.py\<close> lines 111--115; the script takes no precision:
  \<^verbatim>\<open>
            if mean_val != 0 and std_dev > 0:
                sig_digits = -math.log10(std_dev / abs(mean_val))
            else:
                sig_digits = float('inf') if std_dev == 0 else 0
  \<close>
  \<open>softmax/ulpscript.py\<close> lines 54--57 and \<open>parallel_sum/ulpscript.py\<close>
  lines 59--62 have \<open>sig_digits = float('inf')\<close> as the whole \<open>else\<close> branch.
  In the first branch the standard deviation is positive: finite, or infinite, and then
  the logarithm is infinite.
\<close>

fun neg_log10_ratio :: "pyfloat \<Rightarrow> real \<Rightarrow> pyfloat" where
  "neg_log10_ratio (Fin s) mean_val = Fin (- log 10 (s / \<bar>mean_val\<bar>))"
| "neg_log10_ratio PInf mean_val = NInf"
| "neg_log10_ratio NInf mean_val = NaN"
| "neg_log10_ratio NaN mean_val = NaN"

definition ulpplot_sig_digits :: "real \<Rightarrow> pyfloat \<Rightarrow> pyfloat" where
  "ulpplot_sig_digits mean_val std_dev =
     (if mean_val \<noteq> 0 \<and> gt_zero std_dev then neg_log10_ratio std_dev mean_val
      else (if eq_zero std_dev then PInf else Fin 0))"

definition ulpscript_sig_digits :: "real \<Rightarrow> pyfloat \<Rightarrow> pyfloat" where
  "ulpscript_sig_digits mean_val std_dev =
     (if mean_val \<noteq> 0 \<and> gt_zero std_dev then neg_log10_ratio std_dev mean_val
      else PInf)"

subsection \<open>gelu/plot.py: relative error against the expected function\<close>

text \<open>
  Lines 113--119 of \<open>gelu/plot.py\<close>:
  \<^verbatim>\<open>
    if expected is not None:
        if expected != 0:
            rel_err = abs(mu - expected) / abs(expected)
        else:
            rel_err = abs(mu - expected) if mu != expected else 0
        relative_errors.append(rel_err)
  \<close>
  \<open>expected\<close> is \<open>None\<close> when no expected function was given; then nothing
  is appended.
\<close>

definition rel_err :: "real \<Rightarrow> real \<Rightarrow> real" where
  "rel_err mu expected =
     (if expected \<noteq> 0 then \<bar>mu - expected\<bar> / \<bar>expected\<bar>
      else (if mu \<noteq> expected then \<bar>mu - expected\<bar> else 0))"

definition append_rel_err :: "real list \<Rightarrow> real \<Rightarrow> real option \<Rightarrow> real list" where
  "append_rel_err relative_errors mu expected =
     (case expected of
        None \<Rightarrow> relative_errors
      | Some e \<Rightarrow> relative_errors @ [rel_err mu e])"

subsection \<open>gelu/ulpplot.py: loading, the reference program, the ULP error\<close>

text \<open>
  \<open>pd.read_csv(..., names=['i', 'x', 'result'])\<close> yields a frame whose cells are a
  number, a text that is no number, or missing (a short line). Lines 76--85:
  \<^verbatim>\<open>
    df['x'] = pd.to_numeric(df['x'], errors='coerce')
    df['result'] = pd.to_numeric(df['result'], errors='coerce')
    # Drop any rows where conversion failed (NaN values)
    df = df.dropna()
    if df.empty:
        print("Error: No valid data found in input file")
        sys.exit(1)
  \<close>
  \<open>parallel_sum/ulpscript.py\<close> lines 36--41 are the same without the test for an
  empty frame.
\<close>

datatype cell = Num real | Text string | Missing

record raw_row =
  raw_i :: cell
  raw_x :: cell
  raw_result :: cell

fun to_numeric :: "cell \<Rightarrow> real option" where
  "to_numeric (Num v) = Some v"
| "to_numeric (Text t) = None"
| "to_numeric Missing = None"

fun dropna_row :: "cell \<times> real option \<times> real option \<Rightarrow> (real \<times> real) option" where
  "dropna_row (Missing, xv, rv) = None"
| "dropna_row (c, Some xv, Some rv) = Some (xv, rv)"
| "dropna_row (c, xv, rv) = None"

definition dropna :: "(cell \<times> real option \<times> real option) list \<Rightarrow> (real \<times> real) list" where
  "dropna df = List.map_filter dropna_row df"

definition coerce :: "raw_row list \<Rightarrow> (cell \<times> real option \<times> real option) list" where
  "coerce df = map (\<lambda>r. (raw_i r, to_numeric (raw_x r), to_numeric (raw_result r))) df"

definition ulpplot_load :: "raw_row list \<Rightarrow> py_error + (real \<times> real) list" where
  "ulpplot_load raw =
     (let df = dropna (coerce raw)
      in if df = [] then Inl (SystemExit 1) else Inr df)"

definition ulpscript_load :: "raw_row list \<Rightarrow> (real \<times> real) list" where
  "ulpscript_load raw = dropna (coerce raw)"

text \<open>
  \<open>df.groupby('x')\<close> iterates over the distinct values of \<open>x\<close> in ascending
  order, each with the results of its rows.
\<close>

definition groupby_x :: "(real \<times> real) list \<Rightarrow> (real \<times> real list) list" where
  "groupby_x df =
     map (\<lambda>xv. (xv, map snd (filter (\<lambda>r. fst r = xv) df))) (sort (remdups (map fst df)))"

text \<open>
  The reference program is outside the repository. What \<open>get_true_value\<close> sees of
  one call is: exit status zero and an output that \<open>float\<close> parses, exit status zero
  and an output that it does not parse, or a non-zero exit status
  (\<open>subprocess.run(..., check=True)\<close> then raises \<open>CalledProcessError\<close>).
  \<open>gelu/ulpplot.py\<close> lines 11--37 catch both failures and call \<open>sys.exit(1)\<close>;
  \<open>softmax/ulpscript.py\<close> lines 8--20 and \<open>parallel_sum/ulpscript.py\<close> catch
  nothing, and the exception ends the script.
\<close>

datatype completed = Printed real | Unparsable string | Failed int

fun get_true_value :: "real \<Rightarrow> (real \<Rightarrow> completed) \<Rightarrow> py_error + real" where
  "get_true_value xv c_program =
     (case c_program xv of
        Printed v \<Rightarrow> Inr v
      | Failed rc \<Rightarrow> Inl (SystemExit 1)
      | Unparsable out \<Rightarrow> Inl (SystemExit 1))"

fun ulpscript_get_true_value :: "real \<Rightarrow> (real \<Rightarrow> completed) \<Rightarrow> py_error + real" where
  "ulpscript_get_true_value xv c_program =
     (case c_program xv of
        Printed v \<Rightarrow> Inr v
      | Failed rc \<Rightarrow> Inl CalledProcessError
      | Unparsable out \<Rightarrow> Inl ValueError)"

text \<open>
  \<open>np.spacing\<close> on a finite double other than the largest in magnitude (where the
  next double is an infinity): the signed distance from the value to the next double away
  from zero. For \<open>2^e \<le> |v| < 2^(e+1)\<close> that is
  \<open>\<plusminus>2^(e - 52)\<close>, with the exponent no smaller than \<open>-1022\<close>
  (subnormal range); at zero it is the least subnormal. The sign is the sign of the value:
  \<open>np.spacing(-1.0)\<close> is \<open>-2.220446049250313e-16\<close>.
\<close>

definition np_spacing :: "real \<Rightarrow> real" where
  "np_spacing v =
     (if v = 0 then 2 powi (- 1074)
      else sgn v * 2 powi (max \<lfloor>log 2 \<bar>v\<bar>\<rfloor> (- 1022) - 52))"

text \<open>
  \<open>gelu/ulpplot.py\<close> lines 120--130:
  \<^verbatim>\<open>
            abs_error = abs(mean_val - true_val)
            true_val_float = np.float64(true_val)
            ulp = abs(np.spacing(true_val_float))
            ulp_error = abs_error / ulp if ulp != 0 else 0.0
  \<close>
  \<open>parallel_sum/ulpscript.py\<close> lines 70--80:
  \<^verbatim>\<open>
        abs_error = abs(mean_val - true_val)
        true_val_float = np.float64(true_val)
        ulp = np.spacing(true_val_float)
        ulp_error = abs_error / ulp if ulp > 0 else 0.0
  \<close>
\<close>

definition ulpplot_ulp_error :: "real \<Rightarrow> real \<Rightarrow> real" where
  "ulpplot_ulp_error mean_val true_val =
     (let abs_error = \<bar>mean_val - true_val\<bar>;
          ulp = \<bar>np_spacing true_val\<bar>
      in if ulp \<noteq> 0 then abs_error / ulp else 0)"

definition ulpscript_ulp_error :: "real \<Rightarrow> real \<Rightarrow> real" where
  "ulpscript_ulp_error mean_val true_val =
     (let abs_error = \<bar>mean_val - true_val\<bar>;
          ulp = np_spacing true_val
      in if ulp > 0 then abs_error / ulp else 0)"

text \<open>
  The loop of \<open>gelu/ulpplot.py\<close> (lines 106--141) writes one row of the CSV file per
  group, with the columns \<open>x\<close>, \<open>mean\<close>, \<open>std_dev\<close>,
  \<open>significant_digits\<close>, \<open>true_value\<close>, \<open>abs_error\<close> and
  \<open>ulp_error\<close>. The state is the list of rows written so far; the result is that
  list and the exit of the script, if the loop was left by one.
\<close>

record out_row =
  csv_x :: real
  csv_mean :: real
  csv_std_dev :: pyfloat
  csv_significant_digits :: pyfloat
  csv_true_value :: real
  csv_abs_error :: real
  csv_ulp_error :: real

definition ulpplot_row :: "real \<Rightarrow> real list \<Rightarrow> real \<Rightarrow> out_row" where
  "ulpplot_row xv mca_results tv =
     \<lparr> csv_x = xv,
       csv_mean = pandas_mean mca_results,
       csv_std_dev = pandas_std mca_results,
       csv_significant_digits =
         ulpplot_sig_digits (pandas_mean mca_results) (pandas_std mca_results),
       csv_true_value = tv,
       csv_abs_error = \<bar>pandas_mean mca_results - tv\<bar>,
       csv_ulp_error = ulpplot_ulp_error (pandas_mean mca_results) tv \<rparr>"

fun ulpplot_loop ::
  "(real \<Rightarrow> completed) \<Rightarrow> (real \<times> real list) list \<Rightarrow> out_row list \<Rightarrow> out_row list \<times> py_error option" where
  "ulpplot_loop c_program [] written = (written, None)"
| "ulpplot_loop c_program ((xv, mca_results) # grouped) written =
     (case get_true_value xv c_program of
        Inl e \<Rightarrow> (written, Some e)
      | Inr tv \<Rightarrow> ulpplot_loop c_program grouped (written @ [ulpplot_row xv mca_results tv]))"

definition ulpplot_main :: "(real \<Rightarrow> completed) \<Rightarrow> raw_row list \<Rightarrow> out_row list \<times> py_error option" where
  "ulpplot_main c_program raw =
     (case ulpplot_load raw of
        Inl e \<Rightarrow> ([], Some e)
      | Inr df \<Rightarrow> ulpplot_loop c_program (groupby_x df) [])"

subsection \<open>softmax/plot.py: the filter\<close>

text \<open>
  \<open>load_data\<close> (lines 114--138) reads a structured array whose field names follow
  from the number of inputs; \<open>main\<close> passes the same number to every later stage.
  A row carries the fields \<open>i\<close>, \<open>x0\<close>, \<open>x1\<close>, \<open>x2\<close> and
  \<open>result\<close> (here \<open>smp_i\<close>, \<open>smp_x0\<close>, \<open>smp_x1\<close>, \<open>smp_x2\<close>,
  \<open>smp_result\<close>); with fewer than three inputs the fields that the array does not
  have are never read.
\<close>

record sample =
  smp_i :: int
  smp_x0 :: real
  smp_x1 :: real
  smp_x2 :: real
  smp_result :: real

text \<open>
  A Python \<open>str\<close> is the list of its code points; \<open>py_str\<close> writes one from
  an ASCII literal.
\<close>

type_synonym pystr = "nat list"

definition py_str :: "string \<Rightarrow> pystr" where
  "py_str s = map of_char s"

definition dtype_names :: "nat \<Rightarrow> pystr list" where
  "dtype_names n_inputs =
     (if n_inputs = 1 then [py_str ''i'', py_str ''x0'', py_str ''result'']
      else if n_inputs = 2 then [py_str ''i'', py_str ''x0'', py_str ''x1'', py_str ''result'']
      else [py_str ''i'', py_str ''x0'', py_str ''x1'', py_str ''x2'', py_str ''result''])"

definition field :: "sample \<Rightarrow> pystr \<Rightarrow> real" where
  "field r var =
     (if var = py_str ''i'' then real_of_int (smp_i r)
      else if var = py_str ''x0'' then smp_x0 r
      else if var = py_str ''x1'' then smp_x1 r
      else if var = py_str ''x2'' then smp_x2 r
      else smp_result r)"

text \<open>
  \<open>str.split(sep)\<close> with a separator of one character, and \<open>str.strip()\<close>,
  which removes the leading and trailing characters that \<open>str.isspace\<close> accepts:
  U+0009 to U+000D, U+001C to U+0020, U+0085, U+00A0, U+1680, U+2000 to U+200A, U+2028,
  U+2029, U+202F, U+205F and U+3000.
\<close>

fun split_on :: "nat \<Rightarrow> pystr \<Rightarrow> pystr list" where
  "split_on sep [] = [[]]"
| "split_on sep (c # cs) =
     (if c = sep then [] # split_on sep cs
      else (case split_on sep cs of
              [] \<Rightarrow> [[c]]
            | w # ws \<Rightarrow> (c # w) # ws))"

definition is_space :: "nat \<Rightarrow> bool" where
  "is_space c =
     ((0x0009 \<le> c \<and> c \<le> 0x000D) \<or> (0x001C \<le> c \<and> c \<le> 0x0020)
      \<or> c = 0x0085 \<or> c = 0x00A0 \<or> c = 0x1680
      \<or> (0x2000 \<le> c \<and> c \<le> 0x200A)
      \<or> c = 0x2028 \<or> c = 0x2029 \<or> c = 0x202F \<or> c = 0x205F \<or> c = 0x3000)"

definition strip :: "pystr \<Rightarrow> pystr" where
  "strip s = rev (dropWhile is_space (rev (dropWhile is_space s)))"

text \<open>
  \<open>filter_data\<close>, lines 140--157:
  \<^verbatim>\<open>
    if not filter_str:
        return data
    filters = {}
    for pair in filter_str.split(','):
        var, val = pair.strip().split('=')
        filters[var] = float(val)
    mask = np.ones(len(data), dtype=bool)
    for var, val in filters.items():
        if var in data.dtype.names:
            mask &= np.abs(data[var] - val) < 1e-10
    return data[mask]
  \<close>
  The built-in \<open>float\<close> is the parameter \<open>to_float\<close> (\<open>None\<close> where it
  raises \<open>ValueError\<close>). The dictionary is an association list in insertion order;
  storing under a key that is present replaces its value. Unpacking a split of other than
  two parts raises \<open>ValueError\<close>.
\<close>

fun parse_filters ::
  "(pystr \<Rightarrow> real option) \<Rightarrow> pystr list \<Rightarrow> (pystr \<times> real) list \<Rightarrow>
   py_error + (pystr \<times> real) list" where
  "parse_filters to_float [] filters = Inr filters"
| "parse_filters to_float (pair # pairs) filters =
     (case split_on (of_char CHR ''='') (strip pair) of
        [var, val] \<Rightarrow>
          (case to_float val of
             None \<Rightarrow> Inl ValueError
           | Some v \<Rightarrow> parse_filters to_float pairs (AList.update var v filters))
      | _ \<Rightarrow> Inl ValueError)"

fun apply_filters ::
  "pystr list \<Rightarrow> sample list \<Rightarrow> (pystr \<times> real) list \<Rightarrow> bool list \<Rightarrow> bool list" where
  "apply_filters names data [] msk = msk"
| "apply_filters names data ((var, val) # items) msk =
     apply_filters names data items
       (if var \<in> set names
        then map2 (\<and>) msk (map (\<lambda>r. \<bar>field r var - val\<bar> < 1 / 10 ^ 10) data)
        else msk)"

definition select :: "'a list \<Rightarrow> bool list \<Rightarrow> 'a list" where
  "select data msk = map fst (filter snd (zip data msk))"

definition filter_data ::
  "(pystr \<Rightarrow> real option) \<Rightarrow> sample list \<Rightarrow> pystr option \<Rightarrow> nat \<Rightarrow> py_error + sample list" where
  "filter_data to_float data filter_str n_inputs =
     (case filter_str of
        None \<Rightarrow> Inr data
      | Some str \<Rightarrow>
          if str = [] then Inr data
          else (case parse_filters to_float (split_on (of_char CHR '','') str) [] of
                  Inl e \<Rightarrow> Inl e
                | Inr filters \<Rightarrow>
                    Inr (select data
                          (apply_filters (dtype_names n_inputs) data filters
                             (replicate (length data) True)))))"

subsection \<open>softmax/plot.py: statistics per coordinate and the heat map matrices\<close>

text \<open>
  \<open>compute_statistics\<close>, lines 159--255. One dictionary per coordinate that has
  rows; with two or three inputs the loops run over all combinations of the unique
  values and the test \<open>if np.any(mask)\<close> skips a combination without rows. The keys
  \<open>x1\<close> and \<open>x2\<close> are present only with two and three inputs.
\<close>

record stats =
  st_x0 :: real
  st_x1 :: "real option"
  st_x2 :: "real option"
  st_mean :: real
  st_std :: real
  st_min :: real
  st_max :: real
  st_count :: nat
  st_sig_digits :: real

definition make_stats :: "real \<Rightarrow> real option \<Rightarrow> real option \<Rightarrow> real list \<Rightarrow> int \<Rightarrow> stats" where
  "make_stats a b c vals precision_bits =
     \<lparr> st_x0 = a, st_x1 = b, st_x2 = c,
       st_mean = np_mean vals,
       st_std = np_std vals,
       st_min = np_min vals,
       st_max = np_max vals,
       st_count = length vals,
       st_sig_digits = sig_digits_of (np_std vals) (np_mean vals) precision_bits \<rparr>"







type_synonym matrix = "(real \<times> real \<times> real) list list"





definition sig_digits_matrix :: "matrix \<Rightarrow> real list list" where
  "sig_digits_matrix m = map (map (\<lambda>c. snd (snd c))) m"

subsection \<open>harmonic/heatmap.py: the square grid\<close>



section \<open>Properties\<close>

subsection \<open>Basic facts\<close>


lemma np_std_single: "np_std [v] = 0"
  by (simp add: np_std_def np_mean_def)

lemma log10_2_pos: "0 < log 10 (2::real)"
  by simp

lemma log10_2_nonzero: "log 10 (2::real) \<noteq> 0"
  using log10_2_pos by arith

lemma prec_dec_nonzero: "prec_b \<noteq> 0 \<Longrightarrow> prec_dec prec_b \<noteq> 0"
  by (simp add: prec_dec_def log10_2_nonzero)

subsection \<open>The loop of gelu/sigfigplot.py returns\<close>

text \<open>
  The standard deviation is never negative, so \<open>math.log10\<close> is called in its
  domain and the loop appends one estimate for every value of \<open>x\<close>.
\<close>

lemma np_std_nonneg: "0 \<le> np_std a"
proof -
  have "0 \<le> sum_list (map (\<lambda>v. \<bar>v - np_mean a\<bar> ^ 2) a)"
    by (rule sum_list_nonneg) auto
  then show ?thesis
    by (simp add: np_std_def np_mean_def [of "map _ a"])
qed

lemma sigfigplot_s_total: "0 \<le> sigma \<Longrightarrow> \<exists>s. sigfigplot_s sigma mu pd = Inr s"
  by (simp add: sigfigplot_s_def math_log10_def)

lemma sigfigplot_group_total: "\<exists>s. sigfigplot_group D pd xv = Inr s"
  unfolding sigfigplot_group_def Let_def by (rule sigfigplot_s_total [OF np_std_nonneg])

lemma s_values_loop_total:
  "\<exists>ss. s_values_loop D pd xs acc = Inr (acc @ ss) \<and> length ss = length xs"
proof (induction xs arbitrary: acc)
  case Nil
  then show ?case by simp
next
  case (Cons xv xs)
  obtain s where s: "sigfigplot_group D pd xv = Inr s"
    using sigfigplot_group_total by blast
  from Cons [of "acc @ [s]"] obtain ss where
    "s_values_loop D pd xs (acc @ [s]) = Inr ((acc @ [s]) @ ss)" "length ss = length xs"
    by blast
  then show ?case
    by (intro exI [of _ "s # ss"]) (simp add: s)
qed

lemma sigfigplot_s_values_total:
  "\<exists>ss. sigfigplot_s_values D prec_b = Inr ss \<and> length ss = length (x_values D)"
  using s_values_loop_total [of D "prec_dec prec_b" "x_values D" "[]"]
  by (simp add: sigfigplot_s_values_def)

lemma sigfigplot_group_single:
  assumes "length (result_samples D xv) = 1"
  shows "sigfigplot_group D (prec_dec prec_b) xv = Inr (prec_dec prec_b)"
proof -
  from assms obtain v where "result_samples D xv = [v]"
    by (cases "result_samples D xv") auto
  then show ?thesis
    by (simp add: sigfigplot_group_def np_std_single sigfigplot_s_def)
qed

subsection \<open>Groups of one sample\<close>

text \<open>
  C1 as stated: every group of exactly one sample has standard deviation \<open>0\<close> (not
  \<open>NaN\<close>) and the ceiling \<open>precision_bits * log10(2)\<close> as its digits. The row
  that \<open>gelu/ulpplot.py\<close> writes for the group of the single result \<open>1\<close> has
  \<open>NaN\<close> as its standard deviation (pandas divides by \<open>count - 1\<close>) and \<open>0\<close>
  significant digits; the script knows no precision, and \<open>0\<close> is the ceiling of no
  precision but \<open>0\<close>.
\<close>

theorem single_sample_ulpplot_counterexample:
  "csv_std_dev (ulpplot_row 5 [1] 1) = NaN
   \<and> csv_significant_digits (ulpplot_row 5 [1] 1) = Fin 0
   \<and> Fin 0 \<noteq> Fin (prec_dec 53)"
  using prec_dec_nonzero [of 53]
  by (simp add: ulpplot_row_def pandas_std_def ulpplot_sig_digits_def)

text \<open>
  C1, amended to the scripts that aggregate with \<open>np.std\<close>
  (\<open>gelu/sigfigplot.py\<close>, \<open>gelu/plot.py\<close>, \<open>softmax/plot.py\<close>,
  \<open>softmax/plotsigfigs.py\<close>): for a group of exactly one sample the population
  standard deviation is \<open>0\<close> and the estimate is the ceiling, both for the chain of
  \<open>sigfigplot.py\<close> and in the dictionary that \<open>compute_statistics\<close> builds.
\<close>

theorem single_sample_std_zero_max_digits:
  assumes "length vals = 1"
  shows "np_std vals = 0
       \<and> sigfigplot_s (np_std vals) (np_mean vals) (prec_dec prec_b) = Inr (prec_dec prec_b)
       \<and> st_std (make_stats a b c vals precision_bits) = 0
       \<and> st_sig_digits (make_stats a b c vals precision_bits) = max_sig_digits precision_bits"
proof -
  from assms obtain v where v: "vals = [v]"
    by (cases vals) auto
  have z: "np_std vals = 0"
    unfolding v by (rule np_std_single)
  show ?thesis
    by (simp add: z sigfigplot_s_def make_stats_def sig_digits_of_def)
qed

theorem single_sample_std_zero_max_digits_witness:
  "length [1::real] = 1 \<and> np_std [1] = 0
   \<and> sigfigplot_s (np_std [1]) (np_mean [1]) (prec_dec 24) = Inr (prec_dec 24)
   \<and> st_std (make_stats 5 None None [1] 24) = 0
   \<and> st_sig_digits (make_stats 5 None None [1] 24) = max_sig_digits 24"
proof -
  have h: "length [1::real] = 1" by simp
  show ?thesis
    using h single_sample_std_zero_max_digits [OF h, of 24 5 None None 24] by blast
qed

subsection \<open>Zero dispersion\<close>

text \<open>
  C2 as stated: a standard deviation of zero, or below \<open>1e-15\<close>, gives the ceiling
  whatever the mean. \<open>gelu/sigfigplot.py\<close> tests \<open>sigma == 0\<close> only: at
  \<open>sigma = 1e-16\<close> and \<open>mu = 0\<close> its second branch returns \<open>0\<close>, which is
  not the ceiling of 53 bits.
\<close>

theorem std_threshold_counterexample:
  "(1 / 10 ^ 16 :: real) < 1 / 10 ^ 15
   \<and> sigfigplot_s (1 / 10 ^ 16) 0 (prec_dec 53) = Inr 0
   \<and> (0::real) \<noteq> prec_dec 53"
  using prec_dec_nonzero [of 53] by (simp add: sigfigplot_s_def)

text \<open>
  C2, amended: with a standard deviation of exactly zero every capped estimator returns
  the ceiling \<open>precision_bits * log10(2)\<close> whatever the mean (also for a mean of
  zero: the test of the standard deviation comes first); the threshold \<open>1e-15\<close>
  is applied by \<open>compute_statistics\<close> (and \<open>softmax/plotsigfigs.py\<close>) only;
  the ULP scripts, which take no precision, report \<open>float('inf')\<close> for a standard
  deviation of zero.
\<close>

theorem std_zero_gives_ceiling:
  "sigfigplot_s 0 mu (prec_dec prec_b) = Inr (prec_dec prec_b)
   \<and> (std_val < 1 / 10 ^ 15 \<longrightarrow>
        sig_digits_of std_val mean_val precision_bits = max_sig_digits precision_bits)
   \<and> sig_digits_of 0 mean_val precision_bits = max_sig_digits precision_bits
   \<and> ulpplot_sig_digits mean_val (Fin 0) = PInf
   \<and> ulpscript_sig_digits mean_val (Fin 0) = PInf"
  by (simp add: sigfigplot_s_def sig_digits_of_def ulpplot_sig_digits_def ulpscript_sig_digits_def)

theorem std_zero_gives_ceiling_witness:
  "sigfigplot_s 0 0 (prec_dec 53) = Inr (prec_dec 53)
   \<and> (0::real) < 1 / 10 ^ 15
   \<and> sig_digits_of 0 0 53 = max_sig_digits 53
   \<and> ulpplot_sig_digits 0 (Fin 0) = PInf
   \<and> ulpscript_sig_digits 0 (Fin 0) = PInf"
  using std_zero_gives_ceiling [of 0 53 0 0 53] by simp

subsection \<open>Bounds of the estimate\<close>

text \<open>
  C3 as stated: for a positive standard deviation and a mean other than zero the estimate
  lies in \<open>[0, precision_bits * log10(2)]\<close>. \<open>compute_statistics\<close> caps the
  estimate from above only: at a standard deviation of \<open>10\<close> and a mean of \<open>1\<close>
  it returns \<open>-1\<close>.
\<close>

theorem negative_digits_counterexample:
  "sig_digits_of 10 1 53 = - 1 \<and> (0::real) < 10 \<and> (1::real) \<noteq> 0"
proof -
  have "- 1 \<le> 53 * log 10 (2::real)"
    using log10_2_pos by arith
  then show ?thesis
    by (simp add: sig_digits_of_def max_sig_digits_def min_def)
qed

text \<open>
  C3, amended: for a positive standard deviation and a mean other than zero the estimate
  of \<open>compute_statistics\<close> never exceeds the ceiling; it is not negative exactly
  when the precision is not negative and the standard deviation is below \<open>1e-15\<close>
  or at most the magnitude of the mean. \<open>gelu/ulpplot.py\<close> has neither bound: its
  estimate is \<open>-log10(std / |mean|)\<close> as it is.
\<close>

theorem sig_digits_upper_bound_only:
  assumes "0 < std_val" and "mean_val \<noteq> 0"
  shows "sig_digits_of std_val mean_val precision_bits \<le> max_sig_digits precision_bits
       \<and> (0 \<le> sig_digits_of std_val mean_val precision_bits \<longleftrightarrow>
            0 \<le> precision_bits \<and> (std_val < 1 / 10 ^ 15 \<or> std_val \<le> \<bar>mean_val\<bar>))
       \<and> ulpplot_sig_digits mean_val (Fin std_val) = Fin (- log 10 (std_val / \<bar>mean_val\<bar>))"
proof -
  have ratio: "0 < std_val / \<bar>mean_val\<bar>"
    using assms by simp
  have le1: "log 10 (std_val / \<bar>mean_val\<bar>) \<le> 0 \<longleftrightarrow> std_val \<le> \<bar>mean_val\<bar>"
    using assms ratio by (simp add: zero_less_divide_iff)
  have mx: "0 \<le> max_sig_digits precision_bits \<longleftrightarrow> 0 \<le> precision_bits"
    by (simp add: max_sig_digits_def zero_le_mult_iff)
  show ?thesis
    using assms le1 mx
    by (auto simp: sig_digits_of_def ulpplot_sig_digits_def)
qed


theorem sig_digits_upper_bound_only_witness:
  "(0::real) < 1 \<and> (10::real) \<noteq> 0
   \<and> sig_digits_of 1 10 53 \<le> max_sig_digits 53
   \<and> (0 \<le> sig_digits_of 1 10 53 \<longleftrightarrow>
        (0::int) \<le> 53 \<and> ((1::real) < 1 / 10 ^ 15 \<or> (1::real) \<le> \<bar>10\<bar>))
   \<and> ulpplot_sig_digits 10 (Fin 1) = Fin (- log 10 (1 / \<bar>10\<bar>))"
proof -
  have h1: "(0::real) < 1" and h2: "(10::real) \<noteq> 0" by simp_all
  show ?thesis
    using h1 h2 sig_digits_upper_bound_only [OF h1 h2, of 53] by blast
qed

subsection \<open>Failure of the reference program\<close>

lemma csv_x_ulpplot_row: "csv_x (ulpplot_row xv rs tv) = xv"
  by (simp add: ulpplot_row_def)

lemma ulpplot_loop_fail:
  assumes "\<forall>g \<in> set before. \<exists>v. c_program (fst g) = Printed v"
      and "\<forall>v. c_program xa \<noteq> Printed v"
  shows "\<exists>rows. ulpplot_loop c_program (before @ (xa, ra) # rest) written =
                  (written @ rows, Some (SystemExit 1))
          \<and> map csv_x rows = map fst before"
  using assms
proof (induction before arbitrary: written)
  case Nil
  then show ?case by (cases "c_program xa") auto
next
  case (Cons g before)
  obtain xv rs where g: "g = (xv, rs)" by (cases g)
  from Cons.prems obtain v where v: "c_program xv = Printed v" by (auto simp: g)
  from Cons.IH [of "written @ [ulpplot_row xv rs v]"] Cons.prems
  obtain rows where
    r: "ulpplot_loop c_program (before @ (xa, ra) # rest) (written @ [ulpplot_row xv rs v]) =
          ((written @ [ulpplot_row xv rs v]) @ rows, Some (SystemExit 1))"
    and m: "map csv_x rows = map fst before"
    by auto
  show ?case
    by (rule exI [of _ "ulpplot_row xv rs v # rows"]) (simp add: g v r m csv_x_ulpplot_row)
qed

lemma ulpplot_loop_ok:
  assumes "\<forall>g \<in> set grouped. \<exists>v. c_program (fst g) = Printed v"
  shows "\<exists>rows. ulpplot_loop c_program grouped written = (written @ rows, None)
          \<and> map csv_x rows = map fst grouped"
  using assms
proof (induction grouped arbitrary: written)
  case Nil
  then show ?case by simp
next
  case (Cons g grouped)
  obtain xv rs where g: "g = (xv, rs)" by (cases g)
  from Cons.prems obtain v where v: "c_program xv = Printed v" by (auto simp: g)
  from Cons.IH [of "written @ [ulpplot_row xv rs v]"] Cons.prems
  obtain rows where
    r: "ulpplot_loop c_program grouped (written @ [ulpplot_row xv rs v]) =
          ((written @ [ulpplot_row xv rs v]) @ rows, None)"
    and m: "map csv_x rows = map fst grouped"
    by auto
  show ?case
    by (rule exI [of _ "ulpplot_row xv rs v # rows"]) (simp add: g v r m csv_x_ulpplot_row)
qed

text \<open>
  C4 as stated: when the reference program fails for coordinate A and succeeds for
  coordinate B, the run completes and B receives its record. In \<open>gelu/ulpplot.py\<close>
  the handlers of \<open>get_true_value\<close> call \<open>sys.exit(1)\<close>: with a program that
  fails at \<open>x = 1\<close> and prints a value at \<open>x = 2\<close>, the run over the two
  coordinates ends with exit status 1 and has written no row, none for \<open>x = 2\<close>
  either.
\<close>

theorem oracle_failure_counterexample:
  "ulpplot_main (\<lambda>v. if v = 1 then Failed 2 else Printed v)
     [\<lparr>raw_i = Num 0, raw_x = Num 1, raw_result = Num 1\<rparr>,
      \<lparr>raw_i = Num 0, raw_x = Num 2, raw_result = Num 4\<rparr>] = ([], Some (SystemExit 1))"
  by (simp add: ulpplot_main_def ulpplot_load_def dropna_def coerce_def groupby_x_def)

text \<open>
  C4, amended: the loop of \<open>gelu/ulpplot.py\<close> stops at the first coordinate, in
  ascending order, for which the reference program exits with a non-zero status or prints
  an output that does not parse; the run ends there with exit status 1. The rows written
  are those of the coordinates before it; neither the failing coordinate nor any later
  one receives a record, and the failure is not recorded in the output.
\<close>

theorem oracle_failure_aborts_run:
  assumes "\<forall>g \<in> set before. \<exists>v. c_program (fst g) = Printed v"
      and "\<forall>v. c_program xa \<noteq> Printed v"
  shows "\<exists>rows. ulpplot_loop c_program (before @ (xa, ra) # rest) [] =
                  (rows, Some (SystemExit 1))
          \<and> map csv_x rows = map fst before"
  using ulpplot_loop_fail [OF assms, of ra rest "[]"] by simp

theorem oracle_failure_aborts_run_witness:
  "\<exists>rows. ulpplot_loop (\<lambda>v. if v = 2 then Failed 2 else Printed v)
            ([(1, [1])] @ (2, [4]) # [(3, [9])]) [] = (rows, Some (SystemExit 1))
         \<and> map csv_x rows = map fst [(1 :: real, [1 :: real])]"
proof -
  have h1: "\<forall>g \<in> set [(1 :: real, [1 :: real])].
              \<exists>v. (\<lambda>v. if v = 2 then Failed 2 else Printed v) (fst g) = Printed v"
    by simp
  have h2: "\<forall>v. (\<lambda>v. if v = (2::real) then Failed 2 else Printed v) 2 \<noteq> Printed v"
    by simp
  show ?thesis
    using oracle_failure_aborts_run [OF h1 h2] by blast
qed

subsection \<open>Relative error\<close>

text \<open>
  C5. For every mean and true value, the error estimator returns
  \<open>|mean - true_value| / |true_value|\<close> when the true value is not zero; when it is
  zero the result is \<open>|mean - true_value|\<close> if the mean differs from it, and \<open>0\<close>
  if the mean equals it. The theorem states the three cases on the entry that the loop
  body appends.
\<close>

theorem relative_error_cases:
  "append_rel_err errs mean (Some true_value) =
     errs @ [if true_value \<noteq> 0 then \<bar>mean - true_value\<bar> / \<bar>true_value\<bar>
             else if mean \<noteq> true_value then \<bar>mean - true_value\<bar>
             else 0]"
  by (simp add: append_rel_err_def rel_err_def)

subsection \<open>ULP error\<close>

lemma np_spacing_nonzero: "np_spacing v \<noteq> 0"
  by (simp add: np_spacing_def sgn_if)

lemma ulpplot_ulp_error_eq:
  "ulpplot_ulp_error mean_val true_val = \<bar>mean_val - true_val\<bar> / \<bar>np_spacing true_val\<bar>"
  by (simp add: ulpplot_ulp_error_def Let_def np_spacing_nonzero)

lemma ulpscript_ulp_error_pos:
  "0 < true_val \<Longrightarrow>
     ulpscript_ulp_error mean_val true_val = \<bar>mean_val - true_val\<bar> / \<bar>np_spacing true_val\<bar>"
  by (simp add: ulpscript_ulp_error_def Let_def np_spacing_def)

lemma np_spacing_neg: "true_val < 0 \<Longrightarrow> np_spacing true_val < 0"
  by (simp add: np_spacing_def)

lemma ulpscript_ulp_error_neg:
  assumes "true_val < 0"
  shows "ulpscript_ulp_error mean_val true_val = 0"
proof -
  have "\<not> 0 < np_spacing true_val"
    using np_spacing_neg [OF assms] by arith
  then show ?thesis
    by (simp add: ulpscript_ulp_error_def Let_def)
qed

lemma np_spacing_minus_one: "np_spacing (- 1) = - (2 powi (- 52))"
  by (simp add: np_spacing_def)

text \<open>
  C6. The ULP error is \<open>|mean - true_value| / ulp(true_value)\<close> with the magnitude
  of the gap to the next double as \<open>ulp\<close>, and a zero \<open>ulp\<close> gives \<open>0\<close>.
  \<open>gelu/ulpplot.py\<close> computes that (\<open>ulpplot_ulp_error_eq\<close>: the guard
  \<open>ulp != 0\<close> never fires on a finite value). \<open>parallel_sum/ulpscript.py\<close>
  leaves out the \<open>abs\<close> and guards with \<open>ulp > 0\<close>: for a negative true value
  \<open>np.spacing\<close> is negative and the script reports \<open>0\<close>
  (\<open>ulpscript_ulp_error_neg\<close>). At a mean of \<open>-1.5\<close> and a true value of
  \<open>-1\<close> the error is \<open>0.5 / 2^-52 = 2^51\<close> ULP; the script of
  \<open>parallel_sum\<close> writes \<open>0\<close>.
\<close>

theorem ulp_error_negative_true_value:
  "ulpscript_ulp_error (- 3 / 2) (- 1) = 0
   \<and> ulpplot_ulp_error (- 3 / 2) (- 1) = 2 ^ 51"
  by (simp add: ulpscript_ulp_error_def ulpplot_ulp_error_def np_spacing_minus_one Let_def
      power_int_minus)

subsection \<open>Rows that do not parse\<close>

lemma dropna_coerce_append:
  "dropna (coerce (a @ b)) = dropna (coerce a) @ dropna (coerce b)"
  by (simp add: dropna_def coerce_def List.map_filter_def)

lemma dropna_row_bad:
  assumes "raw_i bad = Missing \<or> to_numeric (raw_x bad) = None
           \<or> to_numeric (raw_result bad) = None"
  shows "dropna (coerce [bad]) = []"
proof -
  have "dropna_row (raw_i bad, to_numeric (raw_x bad), to_numeric (raw_result bad)) = None"
    using assms
    by (cases "raw_i bad"; cases "to_numeric (raw_x bad)"; cases "to_numeric (raw_result bad)")
      auto
  then show ?thesis
    by (simp add: dropna_def coerce_def List.map_filter_def)
qed

text \<open>
  C7 as stated: a record that does not parse makes loading fail, and no such record is
  dropped silently. \<open>gelu/ulpplot.py\<close> loads a table of three rows, one with the
  text \<open>abc\<close> as its \<open>x\<close> and one without a result, as the table of the one
  remaining row.
\<close>

theorem malformed_row_counterexample:
  "ulpplot_load
     [\<lparr>raw_i = Num 0, raw_x = Num (1 / 2), raw_result = Num 1\<rparr>,
      \<lparr>raw_i = Num 1, raw_x = Text ''abc'', raw_result = Num 2\<rparr>,
      \<lparr>raw_i = Num 2, raw_x = Num 3, raw_result = Missing\<rparr>] = Inr [(1 / 2, 1)]"
  by (simp add: ulpplot_load_def dropna_def coerce_def)

text \<open>
  C7, amended: in the ULP scripts a record whose \<open>x\<close> or \<open>result\<close> is not a
  number, or that is short, is dropped without a message: the table loaded is the one
  loaded without that record. \<open>gelu/ulpplot.py\<close> ends the run (exit status 1) only
  when no record is left; \<open>parallel_sum/ulpscript.py\<close> has no such test.
\<close>

theorem malformed_row_dropped:
  assumes "raw_i bad = Missing \<or> to_numeric (raw_x bad) = None
           \<or> to_numeric (raw_result bad) = None"
  shows "ulpplot_load (before @ bad # after) = ulpplot_load (before @ after)
       \<and> ulpscript_load (before @ bad # after) = ulpscript_load (before @ after)
       \<and> (\<forall>e. ulpplot_load (before @ bad # after) = Inl e \<longleftrightarrow>
              e = SystemExit 1 \<and> ulpscript_load (before @ after) = [])"
proof -
  have "dropna (coerce (before @ bad # after)) = dropna (coerce (before @ after))"
    using dropna_coerce_append [of before "[bad] @ after"] dropna_coerce_append [of "[bad]" after]
      dropna_row_bad [OF assms] dropna_coerce_append [of before after]
    by simp
  then show ?thesis
    by (auto simp: ulpplot_load_def ulpscript_load_def Let_def)
qed

theorem malformed_row_dropped_witness:
  "to_numeric (raw_x \<lparr>raw_i = Num 1, raw_x = Text ''abc'', raw_result = Num 2\<rparr>) = None
   \<and> ulpplot_load ([\<lparr>raw_i = Num 0, raw_x = Num (1 / 2), raw_result = Num 1\<rparr>]
                   @ \<lparr>raw_i = Num 1, raw_x = Text ''abc'', raw_result = Num 2\<rparr> # []) =
       ulpplot_load ([\<lparr>raw_i = Num 0, raw_x = Num (1 / 2), raw_result = Num 1\<rparr>] @ [])
   \<and> ulpplot_load ([\<lparr>raw_i = Num 0, raw_x = Num (1 / 2), raw_result = Num 1\<rparr>] @ []) =
       Inr [(1 / 2, 1)]"
proof -
  have t: "to_numeric (raw_x \<lparr>raw_i = Num 1, raw_x = Text ''abc'', raw_result = Num 2\<rparr>) = None"
    by simp
  then have h:
    "raw_i \<lparr>raw_i = Num 1, raw_x = Text ''abc'', raw_result = Num 2\<rparr> = Missing
     \<or> to_numeric (raw_x \<lparr>raw_i = Num 1, raw_x = Text ''abc'', raw_result = Num 2\<rparr>) = None
     \<or> to_numeric (raw_result \<lparr>raw_i = Num 1, raw_x = Text ''abc'', raw_result = Num 2\<rparr>)
         = None"
    by blast
  have v: "ulpplot_load ([\<lparr>raw_i = Num 0, raw_x = Num (1 / 2), raw_result = Num 1\<rparr>] @ []) =
             Inr [(1 / 2, 1)]"
    by (simp add: ulpplot_load_def dropna_def coerce_def)
  show ?thesis
    using t v
      malformed_row_dropped [OF h,
        of "[\<lparr>raw_i = Num 0, raw_x = Num (1 / 2), raw_result = Num 1\<rparr>]" "[]"]
    by blast
qed

subsection \<open>The coordinate filter\<close>





lemma parse_filters_distinct:
  "distinct (map fst acc) \<Longrightarrow> parse_filters to_float pairs acc = Inr filters \<Longrightarrow>
   distinct (map fst filters)"
proof (induction pairs arbitrary: acc)
  case Nil
  then show ?case by simp
next
  case (Cons pair pairs)
  from Cons.prems(2) obtain var val v where
    "split_on (of_char CHR ''='') (strip pair) = [var, val]" and "to_float val = Some v"
    and "parse_filters to_float pairs (AList.update var v acc) = Inr filters"
    by (auto split: list.splits option.splits)
  with Cons.IH [of "AList.update var v acc"] Cons.prems(1) show ?case
    by (simp add: distinct_update)
qed

lemma filter_data_no_filter:
  "filter_data to_float data None n_inputs = Inr data"
  "filter_data to_float data (Some []) n_inputs = Inr data"
  by (simp_all add: filter_data_def)







subsection \<open>Grids with missing combinations\<close>























end
